theory Spec2Isabelle
  imports Main "HOL-Library.Product_Lexorder" "HOL-Library.Sublist" "HOL-Library.Multiset"
begin

section \<open>Values of the feed reader\<close>

text \<open>
  The module \<^verbatim>\<open>readlib.py\<close> reads syndication feeds with \<^verbatim>\<open>feedparser\<close>, keeps the
  entries of a date window as dictionaries, and asks a text-generation backend for
  summaries. Exceptions are values: a function that can raise returns
  \<open>py_error + 'a\<close>, with \<open>Inl\<close> for the exception.
\<close>

datatype py_error =
    TypeError
  | NameError
  | AttributeError
  | KeyError
  | IndexError
  | ValueError
  | OverflowError
  | OSError
  | ImportError
  | OtherException string

text \<open>
  \<^verbatim>\<open>time.struct_time\<close>: the nine fields of the tuple that feedparser stores under
  \<^verbatim>\<open>published_parsed\<close> and \<^verbatim>\<open>updated_parsed\<close>. A struct_time has nine elements, so it
  is always truthy.
\<close>

record time_struct =
  tm_year :: int
  tm_mon :: int
  tm_mday :: int
  tm_hour :: int
  tm_min :: int
  tm_sec :: int
  tm_wday :: int
  tm_yday :: int
  tm_isdst :: int

text \<open>
  \<^verbatim>\<open>datetime.date\<close> and its subclass \<^verbatim>\<open>datetime.datetime\<close> (naive: no time zone
  attached). Both compare field by field, most significant first.
\<close>

record date =
  year :: int
  month :: int
  day :: int

record datetime = date +
  hour :: int
  minute :: int
  second :: int
  microsecond :: int

definition date_of :: "datetime \<Rightarrow> date" where
  \<comment> \<open>\<^verbatim>\<open>datetime.date()\<close>: the calendar date, time of day dropped.\<close>
  "date_of dt = \<lparr>year = year dt, month = month dt, day = day dt\<rparr>"

definition date_key :: "date \<Rightarrow> int \<times> int \<times> int" where
  "date_key d = (year d, month d, day d)"

definition date_le :: "date \<Rightarrow> date \<Rightarrow> bool" where
  \<comment> \<open>\<^verbatim>\<open>a <= b\<close> on dates.\<close>
  "date_le a b = (date_key a \<le> date_key b)"

definition datetime_key :: "datetime \<Rightarrow> int \<times> int \<times> int \<times> int \<times> int \<times> int \<times> int" where
  "datetime_key dt =
     (year dt, month dt, day dt, hour dt, minute dt, second dt, microsecond dt)"

text \<open>
  The values a dictionary of this program holds: text, lists and nested dictionaries as
  feedparser delivers them, and the datetime the filter computes.
\<close>

datatype pyval =
    PyNone
  | PyStr string
  | PyInt int
  | PyList "pyval list"
  | PyDict "(string \<times> pyval) list"
  | PyDatetime datetime

text \<open>
  A feedparser entry. Every field is optional (\<open>None\<close>: the key is absent, so
  \<^verbatim>\<open>hasattr\<close> is false and \<^verbatim>\<open>entry.get\<close> returns its default). feedparser stores text
  under \<^verbatim>\<open>title\<close>, \<^verbatim>\<open>link\<close> and \<^verbatim>\<open>summary\<close>, so
  \<^verbatim>\<open>entry.get("title", "").lower()\<close> cannot fail. A date field that is present holds
  a struct_time or Python's \<^verbatim>\<open>None\<close> (the date text did not parse): \<open>Some None\<close>.
\<close>

record entry =
  title :: "string option"
  link :: "string option"
  source :: "pyval option"
  summary :: "string option"
  content :: "pyval option"
  tags :: "pyval option"
  published_parsed :: "time_struct option option"
  updated_parsed :: "time_struct option option"

text \<open>
  An article is the dictionary literal of lines 112 to 120: its keys in insertion
  order, each with its value.
\<close>

type_synonym article = "(string \<times> pyval) list"

section \<open>The date filter\<close>

definition date_struct_of :: "entry \<Rightarrow> time_struct option" where
  \<comment> \<open>Lines 98 to 103: \<^verbatim>\<open>published_parsed\<close> when present and truthy, else
      \<^verbatim>\<open>updated_parsed\<close> when present and truthy, else \<^verbatim>\<open>None\<close>.\<close>
  "date_struct_of e =
     (case published_parsed e of
        Some (Some t) \<Rightarrow> Some t
      | _ \<Rightarrow> (case updated_parsed e of
                Some (Some t) \<Rightarrow> Some t
              | _ \<Rightarrow> None))"

definition make_article :: "entry \<Rightarrow> datetime \<Rightarrow> article" where
  \<comment> \<open>Lines 112 to 120: the dictionary appended for an entry inside the window.\<close>
  "make_article e published_datetime =
     [(''title'', PyStr (case title e of None \<Rightarrow> ''No title'' | Some s \<Rightarrow> s)),
      (''url'', PyStr (case link e of None \<Rightarrow> ''No link'' | Some s \<Rightarrow> s)),
      (''published_datetime'', PyDatetime published_datetime),
      (''source'', (case source e of None \<Rightarrow> PyStr ''Unknown source'' | Some v \<Rightarrow> v)),
      (''summary'', PyStr (case summary e of None \<Rightarrow> ''No summary'' | Some s \<Rightarrow> s)),
      (''content'', (case content e of None \<Rightarrow> PyList [] | Some v \<Rightarrow> v)),
      (''keywords'', (case tags e of None \<Rightarrow> PyList [] | Some v \<Rightarrow> v))]"

text \<open>
  Line 108 converts the struct_time with \<^verbatim>\<open>time.mktime\<close> (local time to seconds since
  the epoch) and \<^verbatim>\<open>datetime.datetime.fromtimestamp\<close> (seconds to local datetime). Both
  belong to the platform and depend on its time zone; both can raise. They are
  parameters \<open>mktime\<close> and \<open>fromtimestamp\<close> of the model; the timestamp is a whole
  number of seconds.
\<close>

definition published_datetime_of ::
  "(time_struct \<Rightarrow> py_error + int) \<Rightarrow> (int \<Rightarrow> py_error + datetime) \<Rightarrow>
   time_struct \<Rightarrow> py_error + datetime" where
  "published_datetime_of mktime fromtimestamp date_struct =
     (case mktime date_struct of
        Inl err \<Rightarrow> Inl err
      | Inr ts \<Rightarrow> fromtimestamp ts)"

definition filter_body ::
  "(time_struct \<Rightarrow> py_error + int) \<Rightarrow> (int \<Rightarrow> py_error + datetime) \<Rightarrow>
   date \<Rightarrow> date \<Rightarrow> entry \<Rightarrow> article list \<Rightarrow> py_error + article list" where
  \<comment> \<open>One iteration of the loop of lines 92 to 120 on the list \<open>filtered_articles\<close>.
      \<open>is_research\<close> and \<open>title_lower\<close> of lines 94 and 95 are never read.\<close>
  "filter_body mktime fromtimestamp start_date end_date e filtered_articles =
     (case date_struct_of e of
        None \<Rightarrow> Inr filtered_articles
      | Some date_struct \<Rightarrow>
          (case published_datetime_of mktime fromtimestamp date_struct of
             Inl err \<Rightarrow> Inl err
           | Inr published_datetime \<Rightarrow>
               if date_le start_date (date_of published_datetime)
                  \<and> date_le (date_of published_datetime) end_date
               then Inr (filtered_articles @ [make_article e published_datetime])
               else Inr filtered_articles))"

fun filter_loop ::
  "(time_struct \<Rightarrow> py_error + int) \<Rightarrow> (int \<Rightarrow> py_error + datetime) \<Rightarrow>
   date \<Rightarrow> date \<Rightarrow> entry list \<Rightarrow> article list \<Rightarrow> py_error + article list" where
  "filter_loop mktime fromtimestamp start_date end_date [] filtered_articles =
     Inr filtered_articles"
| "filter_loop mktime fromtimestamp start_date end_date (e # es) filtered_articles =
     (case filter_body mktime fromtimestamp start_date end_date e filtered_articles of
        Inl err \<Rightarrow> Inl err
      | Inr filtered_articles' \<Rightarrow>
          filter_loop mktime fromtimestamp start_date end_date es filtered_articles')"

definition filter_articles_by_date_range ::
  "(time_struct \<Rightarrow> py_error + int) \<Rightarrow> (int \<Rightarrow> py_error + datetime) \<Rightarrow>
   entry list \<Rightarrow> date \<Rightarrow> date \<Rightarrow> py_error + article list" where
  "filter_articles_by_date_range mktime fromtimestamp articles start_date end_date =
     filter_loop mktime fromtimestamp start_date end_date articles []"

section \<open>The platform's calendar\<close>

text \<open>
  The proleptic Gregorian calendar of \<^verbatim>\<open>datetime\<close>: the number of days from
  1970-01-01 to a civil date, and back.
\<close>

definition days_from_civil :: "int \<Rightarrow> int \<Rightarrow> int \<Rightarrow> int" where
  "days_from_civil y m d =
     (let y' = (if m \<le> 2 then y - 1 else y);
          era = y' div 400;
          yoe = y' - era * 400;
          doy = (153 * (if m > 2 then m - 3 else m + 9) + 2) div 5 + d - 1;
          doe = yoe * 365 + yoe div 4 - yoe div 100 + doy
      in era * 146097 + doe - 719468)"

definition civil_from_days :: "int \<Rightarrow> int \<times> int \<times> int" where
  "civil_from_days z =
     (let z' = z + 719468;
          era = z' div 146097;
          doe = z' - era * 146097;
          yoe = (doe - doe div 1460 + doe div 36524 - doe div 146096) div 365;
          doy = doe - (365 * yoe + yoe div 4 - yoe div 100);
          mp = (5 * doy + 2) div 153;
          d = doy - (153 * mp + 2) div 5 + 1;
          m = (if mp < 10 then mp + 3 else mp - 9);
          y = yoe + era * 400
      in (if m \<le> 2 then y + 1 else y, m, d))"

definition date_minus_days :: "date \<Rightarrow> int \<Rightarrow> py_error + date" where
  \<comment> \<open>\<^verbatim>\<open>d - datetime.timedelta(days=n)\<close>; dates run from year 1 to year 9999.\<close>
  "date_minus_days d n =
     (case civil_from_days (days_from_civil (year d) (month d) (day d) - n) of
        (y, m, dd) \<Rightarrow>
          if 1 \<le> y \<and> y \<le> 9999 then Inr \<lparr>year = y, month = m, day = dd\<rparr>
          else Inl OverflowError)"

text \<open>
  One platform, to run the filter on concrete feeds: a host whose local time zone is
  UTC. \<open>utc_mktime\<close> normalises the month and counts seconds from the epoch, as the C
  library does for fields that fit a C \<^verbatim>\<open>int\<close>; \<open>utc_fromtimestamp\<close> rejects years
  outside 1 to 9999, as \<^verbatim>\<open>datetime\<close> does. The theorems about the filter hold for
  every platform.
\<close>

definition c_int :: "int \<Rightarrow> bool" where
  "c_int x = (- 2147483648 \<le> x \<and> x \<le> 2147483647)"

definition utc_mktime :: "time_struct \<Rightarrow> py_error + int" where
  "utc_mktime t =
     (if c_int (tm_year t) \<and> c_int (tm_mon t) \<and> c_int (tm_mday t) \<and> c_int (tm_hour t)
         \<and> c_int (tm_min t) \<and> c_int (tm_sec t) \<and> c_int (tm_wday t) \<and> c_int (tm_yday t)
         \<and> c_int (tm_isdst t)
      then Inr ((days_from_civil (tm_year t + (tm_mon t - 1) div 12)
                   ((tm_mon t - 1) mod 12 + 1) 1 + (tm_mday t - 1)) * 86400
                + tm_hour t * 3600 + tm_min t * 60 + tm_sec t)
      else Inl OverflowError)"

definition utc_fromtimestamp :: "int \<Rightarrow> py_error + datetime" where
  "utc_fromtimestamp ts =
     (case civil_from_days (ts div 86400) of
        (y, m, d) \<Rightarrow>
          if 1 \<le> y \<and> y \<le> 9999
          then Inr \<lparr>year = y, month = m, day = d,
                    hour = ts mod 86400 div 3600, minute = ts mod 3600 div 60,
                    second = ts mod 60, microsecond = 0\<rparr>
          else Inl ValueError)"

section \<open>Console output\<close>

text \<open>
  Every \<^verbatim>\<open>print\<close> call of the module is one event, carrying the values its message
  interpolates; a run's output is the list of its events in order.
\<close>

datatype event =
    WarnNoApiKey
  | WarnNotInstalled
  | ErrorInitClient py_error
  | WarnNotWellFormed string string
  | ErrorFetching string py_error
  | FetchingBetween date date
  | ProcessingFeed string
  | FoundThisWeek nat
  | NoneThisWeek
  | Dashes nat
  | FoundTotal nat
  | ListTitle nat pyval
  | ListSource pyval date
  | ListUrl pyval
  | NoNewArticles

section \<open>Fetching a feed\<close>

text \<open>
  \<^verbatim>\<open>feedparser.parse\<close> is the parameter \<open>parse\<close>: it returns the parsed feed or raises
  (an instance of \<^verbatim>\<open>Exception\<close>: network, I/O). \<open>bozo_exception\<close> is the text of the
  parser's structural error, absent when the parser set none.
\<close>

record parsed_feed =
  bozo :: bool
  bozo_exception :: "string option"
  entries :: "entry list"

definition fetch_try ::
  "(string \<Rightarrow> py_error + parsed_feed) \<Rightarrow> string \<Rightarrow> event list \<times> (py_error + entry list)" where
  \<comment> \<open>The body of the \<^verbatim>\<open>try\<close> of lines 60 to 69: what it printed, and what it returned
      or raised.\<close>
  "fetch_try parse feed_url =
     (case parse feed_url of
        Inl err \<Rightarrow> ([], Inl err)
      | Inr parsed_feed \<Rightarrow>
          if bozo parsed_feed then
            (case bozo_exception parsed_feed of
               None \<Rightarrow> ([], Inl AttributeError)
             | Some error_message \<Rightarrow>
                 ([WarnNotWellFormed feed_url error_message], Inr (entries parsed_feed)))
          else ([], Inr (entries parsed_feed)))"

definition get_articles_from_rss ::
  "(string \<Rightarrow> py_error + parsed_feed) \<Rightarrow> string \<Rightarrow> event list \<times> (py_error + entry list)" where
  \<comment> \<open>Lines 59 to 73: the handler of \<^verbatim>\<open>except Exception\<close> prints and returns \<^verbatim>\<open>[]\<close>.\<close>
  "get_articles_from_rss parse feed_url =
     (case fetch_try parse feed_url of
        (out, Inl err) \<Rightarrow> (out @ [ErrorFetching feed_url err], Inr [])
      | (out, Inr es) \<Rightarrow> (out, Inr es))"

section \<open>The summarization client\<close>

text \<open>
  Lines 30 to 45 run when the module is loaded. The global \<open>client\<close> is bound only on
  the branch of line 41; \<open>None\<close> below means that the name is not bound.
  \<^verbatim>\<open>genai.Client\<close> is the parameter \<open>genai_Client\<close>; the environment variable is
  \<open>None\<close> when it is not set.
\<close>

definition init_client ::
  "(string \<Rightarrow> py_error + 'c) \<Rightarrow> string option \<Rightarrow> event list \<times> 'c option" where
  "init_client genai_Client GOOGLE_API_KEY =
     (case GOOGLE_API_KEY of
        None \<Rightarrow> ([WarnNoApiKey], None)
      | Some key \<Rightarrow>
          if key = [] then ([WarnNoApiKey], None)
          else (case genai_Client key of
                  Inl ImportError \<Rightarrow> ([WarnNotInstalled], None)
                | Inl err \<Rightarrow> ([ErrorInitClient err], None)
                | Inr c \<Rightarrow> ([], Some c)))"

definition prompt :: string where
  "prompt =
     ''You are a helpful assistant that summarizes scientific articles. '' @
     ''Here are the latest articles from a feed source:'' @
     ''{}'' @
     ''In a few sentences, answer the following questions:'' @
     ''What type of article is this?'' @
     ''What research area is this research about?'' @
     ''what is the most important message of this publication?'' @
     ''What applications does this research have?''"

definition prompt2 :: string where
  "prompt2 =
     ''You are a helpful assistant that summarizes scientific articles. '' @
     ''Here are many summaries of a collection of articles.'' @
     ''{}'' @
     ''In a few sentences and concise language, describe the major themes of these articles.'' @
     ''Provide links to a few important articles in [[number]](url)] style.'' @
     ''The links should be integrated into the text, not listed separately.''"

definition model_name :: string where
  "model_name = ''gemini-2.0-flash''"

text \<open>
  \<^verbatim>\<open>str.format\<close> with positional arguments, for templates whose replacement fields are
  all the automatic field \<^verbatim>\<open>{}\<close>, as in both prompts: \<^verbatim>\<open>{{\<close> and \<^verbatim>\<open>}}\<close> are escapes,
  the \<open>n\<close>-th \<^verbatim>\<open>{}\<close> is replaced by the \<open>n\<close>-th argument, which is not scanned again, and
  a single brace is an error. Fields with a name, an index or a format are not modelled
  (they are reported as \<open>ValueError\<close>).
\<close>

fun format_from :: "nat \<Rightarrow> string list \<Rightarrow> string \<Rightarrow> py_error + string" where
  "format_from n args [] = Inr []"
| "format_from n args [c] =
     (if c = CHR ''{'' \<or> c = CHR ''}'' then Inl ValueError else Inr [c])"
| "format_from n args (c # d # cs) =
     (if c = CHR ''{'' then
        (if d = CHR ''{'' then map_sum id ((#) c) (format_from n args cs)
         else if d = CHR ''}'' then
           (if n < length args
            then map_sum id ((@) (args ! n)) (format_from (Suc n) args cs)
            else Inl IndexError)
         else Inl ValueError)
      else if c = CHR ''}'' then
        (if d = CHR ''}'' then map_sum id ((#) c) (format_from n args cs)
         else Inl ValueError)
      else map_sum id ((#) c) (format_from n args (d # cs)))"

definition str_format :: "string \<Rightarrow> string list \<Rightarrow> py_error + string" where
  "str_format template args = format_from 0 args template"

fun str_join :: "string \<Rightarrow> string list \<Rightarrow> string" where
  \<comment> \<open>\<^verbatim>\<open>sep.join(xs)\<close>\<close>
  "str_join sep [] = []"
| "str_join sep [x] = x"
| "str_join sep (x # y # ys) = x @ sep @ str_join sep (y # ys)"

text \<open>
  \<^verbatim>\<open>client.models.generate_content(model, contents).text\<close> is the parameter
  \<open>generate_content\<close>: the backend's text, or the exception of the request.
  \<open>article_entry\<close> is the text that \<^verbatim>\<open>format\<close> renders for the entry. The name
  \<open>client\<close> is looked up before the arguments of the call are evaluated.
\<close>

definition summarize_article ::
  "('c \<Rightarrow> string \<Rightarrow> string \<Rightarrow> py_error + string) \<Rightarrow> 'c option \<Rightarrow> string \<Rightarrow>
   py_error + string" where
  "summarize_article generate_content client article_entry =
     (case client of
        None \<Rightarrow> Inl NameError
      | Some c \<Rightarrow>
          (case str_format prompt [article_entry] of
             Inl err \<Rightarrow> Inl err
           | Inr contents \<Rightarrow> generate_content c model_name contents))"

definition analyze_article_collection ::
  "('c \<Rightarrow> string \<Rightarrow> string \<Rightarrow> py_error + string) \<Rightarrow> 'c option \<Rightarrow> string list \<Rightarrow>
   py_error + string" where
  "analyze_article_collection generate_content client articles_summaries =
     (let summaries = str_join [CHR 0x0A, CHR 0x0A, CHR 0x0A] articles_summaries in
      case client of
        None \<Rightarrow> Inl NameError
      | Some c \<Rightarrow>
          (case str_format prompt2 [summaries] of
             Inl err \<Rightarrow> Inl err
           | Inr contents \<Rightarrow> generate_content c model_name contents))"

section \<open>The main script\<close>

definition getitem :: "article \<Rightarrow> string \<Rightarrow> py_error + pyval" where
  \<comment> \<open>\<^verbatim>\<open>d[k]\<close>\<close>
  "getitem d k = (case map_of d k of None \<Rightarrow> Inl KeyError | Some v \<Rightarrow> Inr v)"

definition published_key :: "article \<Rightarrow> py_error + datetime" where
  \<comment> \<open>The sort key of line 236, \<^verbatim>\<open>x['published_datetime']\<close>. The filter stores a
      datetime there; another value cannot be ordered against one.\<close>
  "published_key x =
     (case getitem x ''published_datetime'' of
        Inl err \<Rightarrow> Inl err
      | Inr (PyDatetime dt) \<Rightarrow> Inr dt
      | Inr _ \<Rightarrow> Inl TypeError)"

fun keys_of :: "article list \<Rightarrow> py_error + datetime list" where
  "keys_of [] = Inr []"
| "keys_of (x # xs) =
     (case published_key x of
        Inl err \<Rightarrow> Inl err
      | Inr k \<Rightarrow> map_sum id ((#) k) (keys_of xs))"

definition py_sort_reverse :: "('a \<Rightarrow> 'k::linorder) \<Rightarrow> 'a list \<Rightarrow> 'a list" where
  \<comment> \<open>\<^verbatim>\<open>list.sort(key=..., reverse=True)\<close> of the standard library: a stable sort in
      which elements with equal keys keep their original order also when reversed;
      it reverses the list, sorts it stably in ascending order, and reverses again.\<close>
  "py_sort_reverse key_fn xs = rev (sort_key key_fn (rev xs))"

definition sort_articles :: "article list \<Rightarrow> py_error + article list" where
  \<comment> \<open>Line 236: the keys are computed first, then the list is sorted on them.\<close>
  "sort_articles all_new_articles =
     (case keys_of all_new_articles of
        Inl err \<Rightarrow> Inl err
      | Inr ks \<Rightarrow>
          Inr (map snd (py_sort_reverse (\<lambda>p. datetime_key (fst p)) (zip ks all_new_articles))))"

text \<open>
  A call with positional arguments. \<^verbatim>\<open>filter_articles_by_date_range\<close> has three
  parameters, none with a default: a call with another number of arguments raises
  \<^verbatim>\<open>TypeError\<close> before the body runs.
\<close>

datatype arg = ArgEntries "entry list" | ArgDate date | ArgStr string

definition call_filter_articles_by_date_range ::
  "(time_struct \<Rightarrow> py_error + int) \<Rightarrow> (int \<Rightarrow> py_error + datetime) \<Rightarrow>
   arg list \<Rightarrow> py_error + article list" where
  "call_filter_articles_by_date_range mktime fromtimestamp args =
     (case args of
        [ArgEntries articles, ArgDate start_date, ArgDate end_date] \<Rightarrow>
          filter_articles_by_date_range mktime fromtimestamp articles start_date end_date
      | _ \<Rightarrow> Inl TypeError)"

definition target_feeds :: "(string \<times> string) list" where
  "target_feeds =
     [(''Nature'', ''http://feeds.nature.com/nature/rss/current''),
      (''Science'', ''https://www.science.org/rss/news_current.xml'')]"

fun feeds_loop ::
  "(string \<Rightarrow> py_error + parsed_feed) \<Rightarrow>
   (time_struct \<Rightarrow> py_error + int) \<Rightarrow> (int \<Rightarrow> py_error + datetime) \<Rightarrow>
   date \<Rightarrow> date \<Rightarrow> (string \<times> string) list \<Rightarrow> article list \<Rightarrow>
   event list \<times> (py_error + article list)" where
  "feeds_loop parse mktime fromtimestamp one_day_ago today [] all_new_articles =
     ([], Inr all_new_articles)"
| "feeds_loop parse mktime fromtimestamp one_day_ago today ((source_name, feed_url) # feeds)
     all_new_articles =
     (case get_articles_from_rss parse feed_url of
        (out1, Inl err) \<Rightarrow> (ProcessingFeed source_name # out1, Inl err)
      | (out1, Inr all_entries) \<Rightarrow>
          if all_entries \<noteq> [] then
            (case call_filter_articles_by_date_range mktime fromtimestamp
                    [ArgEntries all_entries, ArgDate one_day_ago, ArgDate today,
                     ArgStr source_name] of
               Inl err \<Rightarrow> (ProcessingFeed source_name # out1, Inl err)
             | Inr todays_articles \<Rightarrow>
                 (case feeds_loop parse mktime fromtimestamp one_day_ago today feeds
                         (if todays_articles \<noteq> [] then all_new_articles @ todays_articles
                          else all_new_articles) of
                    (out2, r) \<Rightarrow>
                      (ProcessingFeed source_name # out1 @
                       [if todays_articles \<noteq> [] then FoundThisWeek (length todays_articles)
                        else NoneThisWeek,
                        Dashes (length source_name + 20)] @ out2, r)))
          else
            (case feeds_loop parse mktime fromtimestamp one_day_ago today feeds
                    all_new_articles of
               (out2, r) \<Rightarrow>
                 (ProcessingFeed source_name # out1 @
                  [Dashes (length source_name + 20)] @ out2, r)))"

fun listing :: "nat \<Rightarrow> article list \<Rightarrow> event list \<times> py_error option" where
  \<comment> \<open>Lines 238 to 242, from index \<open>i\<close>.\<close>
  "listing i [] = ([], None)"
| "listing i (article # rest) =
     (case getitem article ''published_datetime'' of
        Inl err \<Rightarrow> ([], Some err)
      | Inr (PyDatetime dt) \<Rightarrow>
          (case getitem article ''title'' of
             Inl err \<Rightarrow> ([], Some err)
           | Inr t \<Rightarrow>
               (case getitem article ''source'' of
                  Inl err \<Rightarrow> ([ListTitle i t], Some err)
                | Inr s \<Rightarrow>
                    (case getitem article ''url'' of
                       Inl err \<Rightarrow> ([ListTitle i t, ListSource s (date_of dt)], Some err)
                     | Inr u \<Rightarrow>
                         (case listing (Suc i) rest of
                            (out, r) \<Rightarrow>
                              ([ListTitle i t, ListSource s (date_of dt), ListUrl u] @ out,
                               r)))))
      | Inr _ \<Rightarrow> ([], Some AttributeError))"

definition main ::
  "(string \<Rightarrow> py_error + parsed_feed) \<Rightarrow>
   (time_struct \<Rightarrow> py_error + int) \<Rightarrow> (int \<Rightarrow> py_error + datetime) \<Rightarrow>
   date \<Rightarrow> event list \<times> py_error option" where
  \<comment> \<open>Lines 197 to 244; \<open>today\<close> is \<^verbatim>\<open>datetime.date.today()\<close>. The result is the
      output and the exception that ended the run, if any.\<close>
  "main parse mktime fromtimestamp today =
     (case date_minus_days today 7 of
        Inl err \<Rightarrow> ([], Some err)
      | Inr one_day_ago \<Rightarrow>
          (case feeds_loop parse mktime fromtimestamp one_day_ago today target_feeds [] of
             (out, Inl err) \<Rightarrow> (FetchingBetween one_day_ago today # out, Some err)
           | (out, Inr all_new_articles) \<Rightarrow>
               if all_new_articles \<noteq> [] then
                 (case sort_articles all_new_articles of
                    Inl err \<Rightarrow>
                      (FetchingBetween one_day_ago today # out @
                       [FoundTotal (length all_new_articles)], Some err)
                  | Inr sorted_articles \<Rightarrow>
                      (case listing 1 sorted_articles of
                         (out2, r) \<Rightarrow>
                           (FetchingBetween one_day_ago today # out @
                            [FoundTotal (length all_new_articles)] @ out2, r)))
               else (FetchingBetween one_day_ago today # out @ [NoNewArticles], None)))"

section \<open>Predicates of the properties\<close>

definition produced ::
  "(time_struct \<Rightarrow> py_error + int) \<Rightarrow> (int \<Rightarrow> py_error + datetime) \<Rightarrow>
   date \<Rightarrow> date \<Rightarrow> entry \<Rightarrow> article \<Rightarrow> bool" where
  \<comment> \<open>\<open>r\<close> is the article of entry \<open>en\<close>: the entry has a date structure, the platform
      converts it, the date lies in the window, and \<open>r\<close> is the dictionary built from
      both.\<close>
  "produced mk ft s e en r =
     (\<exists>t dt. date_struct_of en = Some t \<and> published_datetime_of mk ft t = Inr dt
        \<and> date_le s (date_of dt) \<and> date_le (date_of dt) e \<and> r = make_article en dt)"

definition published_ge :: "article \<Rightarrow> article \<Rightarrow> bool" where
  \<comment> \<open>\<^verbatim>\<open>a['published_datetime'] >= b['published_datetime']\<close>, both datetimes.\<close>
  "published_ge a b =
     (case (published_key a, published_key b) of
        (Inr da, Inr db) \<Rightarrow> datetime_key db \<le> datetime_key da
      | _ \<Rightarrow> False)"

section \<open>Example feeds\<close>

text \<open>
  Entries dated 10 May 2024 (in \<^verbatim>\<open>published_parsed\<close>, or only in \<^verbatim>\<open>updated_parsed\<close>),
  30 April 2024, and without any date, for the window from 1 May to 15 May 2024.
\<close>

definition ts_may10 :: time_struct where
  "ts_may10 = \<lparr>tm_year = 2024, tm_mon = 5, tm_mday = 10, tm_hour = 12, tm_min = 30,
     tm_sec = 0, tm_wday = 4, tm_yday = 131, tm_isdst = 0\<rparr>"

definition ts_april30 :: time_struct where
  "ts_april30 = \<lparr>tm_year = 2024, tm_mon = 4, tm_mday = 30, tm_hour = 23, tm_min = 59,
     tm_sec = 59, tm_wday = 1, tm_yday = 121, tm_isdst = 0\<rparr>"

definition ts_may15 :: time_struct where
  "ts_may15 = \<lparr>tm_year = 2024, tm_mon = 5, tm_mday = 15, tm_hour = 23, tm_min = 59,
     tm_sec = 59, tm_wday = 2, tm_yday = 136, tm_isdst = 0\<rparr>"

definition dt_may10 :: datetime where
  "dt_may10 = \<lparr>year = 2024, month = 5, day = 10, hour = 12, minute = 30, second = 0,
     microsecond = 0\<rparr>"

definition dt_may15 :: datetime where
  "dt_may15 = \<lparr>year = 2024, month = 5, day = 15, hour = 23, minute = 59, second = 59,
     microsecond = 0\<rparr>"

definition dt_april30 :: datetime where
  "dt_april30 = \<lparr>year = 2024, month = 4, day = 30, hour = 23, minute = 59, second = 59,
     microsecond = 0\<rparr>"

definition entry_published :: entry where
  "entry_published = \<lparr>title = Some ''Gravity'', link = Some ''http://example.org/1'',
     source = None, summary = None, content = None, tags = None,
     published_parsed = Some (Some ts_may10), updated_parsed = None\<rparr>"

definition entry_updated_only :: entry where
  "entry_updated_only = \<lparr>title = None, link = None, source = None,
     summary = Some ''Abstract'', content = None,
     tags = Some (PyList [PyDict [(''term'', PyStr ''physics'')]]),
     published_parsed = None, updated_parsed = Some (Some ts_may10)\<rparr>"

definition entry_unparsed_published :: entry where
  "entry_unparsed_published = \<lparr>title = Some ''Cells'', link = None, source = None,
     summary = None, content = None, tags = None,
     published_parsed = Some None, updated_parsed = Some (Some ts_may15)\<rparr>"

definition entry_april30 :: entry where
  "entry_april30 = \<lparr>title = Some ''Old'', link = Some ''http://example.org/0'',
     source = None, summary = None, content = None, tags = None,
     published_parsed = Some (Some ts_april30), updated_parsed = None\<rparr>"

definition entry_no_date :: entry where
  "entry_no_date = \<lparr>title = Some ''Undated'', link = None, source = None,
     summary = None, content = None, tags = None,
     published_parsed = None, updated_parsed = Some None\<rparr>"

definition window_start :: date where
  "window_start = \<lparr>year = 2024, month = 5, day = 1\<rparr>"

definition window_end :: date where
  "window_end = \<lparr>year = 2024, month = 5, day = 15\<rparr>"

definition feed_ok :: "string \<Rightarrow> py_error + parsed_feed" where
  \<comment> \<open>A parser that answers every URL with a well-formed feed of one entry.\<close>
  "feed_ok url = Inr \<lparr>bozo = False, bozo_exception = None, entries = [entry_published]\<rparr>"

definition feed_bozo :: "string \<Rightarrow> py_error + parsed_feed" where
  \<comment> \<open>A parser that reports a structural error and recovers one entry.\<close>
  "feed_bozo url =
     Inr \<lparr>bozo = True, bozo_exception = Some ''mismatched tag'',
          entries = [entry_published]\<rparr>"

definition feed_down :: "string \<Rightarrow> py_error + parsed_feed" where
  \<comment> \<open>A parser whose fetch fails.\<close>
  "feed_down url = Inl OSError"

section \<open>The loop of the filter\<close>

lemma filter_loop_acc:
  "filter_loop mk ft s e xs acc =
     (case filter_loop mk ft s e xs [] of Inl err \<Rightarrow> Inl err | Inr out \<Rightarrow> Inr (acc @ out))"
proof (induction xs arbitrary: acc)
  case Nil
  show ?case by simp
next
  case (Cons x xs)
  have body: "filter_body mk ft s e x acc =
      (case filter_body mk ft s e x [] of Inl err \<Rightarrow> Inl err | Inr o1 \<Rightarrow> Inr (acc @ o1))"
    by (simp add: filter_body_def split: option.splits sum.splits)
  show ?case
  proof (cases "filter_body mk ft s e x []")
    case (Inl err)
    with body show ?thesis by simp
  next
    case (Inr o1)
    with body have b: "filter_body mk ft s e x acc = Inr (acc @ o1)" by simp
    show ?thesis
      using Cons.IH [of "acc @ o1"] Cons.IH [of o1]
      by (simp add: b Inr split: sum.splits)
  qed
qed

lemma filter_Nil: "filter_articles_by_date_range mk ft [] s e = Inr []"
  by (simp add: filter_articles_by_date_range_def)

lemma filter_Cons:
  "filter_articles_by_date_range mk ft (x # xs) s e =
     (case filter_body mk ft s e x [] of
        Inl err \<Rightarrow> Inl err
      | Inr o1 \<Rightarrow>
          (case filter_articles_by_date_range mk ft xs s e of
             Inl err \<Rightarrow> Inl err
           | Inr o2 \<Rightarrow> Inr (o1 @ o2)))"
proof (cases "filter_body mk ft s e x []")
  case (Inl err)
  then show ?thesis by (simp add: filter_articles_by_date_range_def)
next
  case (Inr o1)
  then show ?thesis
    using filter_loop_acc [of mk ft s e xs o1]
    by (simp add: filter_articles_by_date_range_def)
qed

lemma filter_append:
  "filter_articles_by_date_range mk ft (xs @ ys) s e =
     (case filter_articles_by_date_range mk ft xs s e of
        Inl err \<Rightarrow> Inl err
      | Inr o1 \<Rightarrow>
          (case filter_articles_by_date_range mk ft ys s e of
             Inl err \<Rightarrow> Inl err
           | Inr o2 \<Rightarrow> Inr (o1 @ o2)))"
  by (induction xs) (auto simp: filter_Nil filter_Cons split: sum.splits)

lemma filter_body_cases:
  assumes "filter_body mk ft s e en [] = Inr o1"
  shows "o1 = [] \<or> (\<exists>r. o1 = [r] \<and> produced mk ft s e en r)"
  using assms
  by (auto simp: filter_body_def produced_def split: option.splits sum.splits if_splits)

lemma filter_kept:
  "filter_articles_by_date_range mk ft articles s e = Inr out \<Longrightarrow>
     \<exists>kept. subseq kept articles \<and> list_all2 (produced mk ft s e) kept out"
proof (induction articles arbitrary: out)
  case Nil
  then show ?case by (simp add: filter_Nil)
next
  case (Cons x xs)
  from Cons.prems obtain o1 o2 where
    b: "filter_body mk ft s e x [] = Inr o1" and
    r: "filter_articles_by_date_range mk ft xs s e = Inr o2" and
    out: "out = o1 @ o2"
    by (auto simp: filter_Cons split: sum.splits)
  from Cons.IH [OF r] obtain kept where
    k: "subseq kept xs" "list_all2 (produced mk ft s e) kept o2" by blast
  from filter_body_cases [OF b] show ?case
  proof
    assume "o1 = []"
    with k out show ?thesis by (intro exI [of _ kept]) (auto intro: list_emb.intros)
  next
    assume "\<exists>r. o1 = [r] \<and> produced mk ft s e x r"
    then obtain r where "o1 = [r]" "produced mk ft s e x r" by blast
    with k out show ?thesis by (intro exI [of _ "x # kept"]) auto
  qed
qed

lemma filter_entry:
  assumes run: "filter_articles_by_date_range mk ft (xs @ en # ys) s e = Inr out"
    and ds: "date_struct_of en = Some t"
    and dt: "published_datetime_of mk ft t = Inr dt"
  shows "\<exists>o1 o2. filter_articles_by_date_range mk ft xs s e = Inr o1
           \<and> filter_articles_by_date_range mk ft ys s e = Inr o2
           \<and> out = o1 @ (if date_le s (date_of dt) \<and> date_le (date_of dt) e
                          then [make_article en dt] else []) @ o2"
  using run
  by (auto simp: filter_append filter_Cons filter_body_def ds dt split: sum.splits if_splits)

lemma filter_no_date:
  assumes "date_struct_of en = None"
  shows "filter_articles_by_date_range mk ft (xs @ en # ys) s e =
         filter_articles_by_date_range mk ft (xs @ ys) s e"
  by (auto simp: filter_append filter_Cons filter_body_def assms split: sum.splits)

lemma filter_total:
  assumes "\<forall>en\<in>set articles. \<forall>t. date_struct_of en = Some t \<longrightarrow>
             (\<exists>dt. published_datetime_of mk ft t = Inr dt)"
  shows "\<exists>out. filter_articles_by_date_range mk ft articles s e = Inr out"
  using assms
proof (induction articles)
  case Nil
  show ?case by (simp add: filter_Nil)
next
  case (Cons x xs)
  then obtain o2 where r: "filter_articles_by_date_range mk ft xs s e = Inr o2" by auto
  have "\<exists>o1. filter_body mk ft s e x [] = Inr o1"
  proof (cases "date_struct_of x")
    case None
    then show ?thesis by (simp add: filter_body_def)
  next
    case (Some t)
    with Cons.prems obtain dt where "published_datetime_of mk ft t = Inr dt" by auto
    with Some show ?thesis by (simp add: filter_body_def)
  qed
  with r show ?case by (auto simp: filter_Cons)
qed

lemma filter_out_from_entry:
  assumes run: "filter_articles_by_date_range mk ft articles s e = Inr out"
    and r: "r \<in> set out"
  shows "\<exists>en\<in>set articles. produced mk ft s e en r"
proof -
  from filter_kept [OF run] obtain kept where
    sub: "subseq kept articles" and rel: "list_all2 (produced mk ft s e) kept out"
    by blast
  from r obtain i where i: "i < length out" "out ! i = r"
    by (auto simp: in_set_conv_nth)
  from rel i have "i < length kept" "produced mk ft s e (kept ! i) r"
    by (auto simp: list_all2_conv_all_nth)
  moreover from sub have "set kept \<subseteq> set articles"
    by (auto elim: list_emb_set)
  ultimately show ?thesis
    by (meson nth_mem subsetD)
qed

lemma example_run_sentinels:
  "filter_articles_by_date_range utc_mktime utc_fromtimestamp
     [entry_april30, entry_updated_only, entry_published] window_start window_end
   = Inr [make_article entry_updated_only dt_may10, make_article entry_published dt_may10]"
  by code_simp

lemma may10_in_window:
  "date_le window_start (date_of dt_may10)" "date_le (date_of dt_may10) window_end"
  by (simp_all add: date_le_def date_key_def date_of_def window_start_def window_end_def
      dt_may10_def)

subsection \<open>The examples on the UTC platform\<close>

lemma may10_converts:
  "published_datetime_of utc_mktime utc_fromtimestamp ts_may10 = Inr dt_may10"
  by code_simp

lemma may15_converts:
  "published_datetime_of utc_mktime utc_fromtimestamp ts_may15 = Inr dt_may15"
  by code_simp

lemma april30_converts:
  "published_datetime_of utc_mktime utc_fromtimestamp ts_april30 = Inr dt_april30"
  by code_simp

lemma example_run:
  "filter_articles_by_date_range utc_mktime utc_fromtimestamp
     [entry_april30, entry_published, entry_no_date, entry_unparsed_published]
     window_start window_end
   = Inr [make_article entry_published dt_may10,
          make_article entry_unparsed_published dt_may15]"
  by code_simp

lemma example_date_structs:
  "date_struct_of entry_published = Some ts_may10"
  "date_struct_of entry_updated_only = Some ts_may10"
  "date_struct_of entry_unparsed_published = Some ts_may15"
  "date_struct_of entry_april30 = Some ts_april30"
  "date_struct_of entry_no_date = None"
  by (simp_all add: date_struct_of_def entry_published_def entry_updated_only_def
      entry_unparsed_published_def entry_april30_def entry_no_date_def)

section \<open>Properties of the date filter\<close>



text \<open>
  C3. The date structure of an entry is \<^verbatim>\<open>published_parsed\<close> whenever that field is
  present and not empty; \<^verbatim>\<open>updated_parsed\<close> is used only when \<^verbatim>\<open>published_parsed\<close>
  is absent or empty. An entry for which neither field yields a value adds nothing to
  the output and its iteration raises nothing: the run is the run without the entry.
\<close>

theorem date_struct_primary_then_fallback:
  "(published_parsed en = Some (Some t) \<longrightarrow> date_struct_of en = Some t)
   \<and> ((published_parsed en = None \<or> published_parsed en = Some None) \<longrightarrow>
        updated_parsed en = Some (Some u) \<longrightarrow> date_struct_of en = Some u)
   \<and> ((published_parsed en = None \<or> published_parsed en = Some None) \<longrightarrow>
        (updated_parsed en = None \<or> updated_parsed en = Some None) \<longrightarrow>
          date_struct_of en = None
        \<and> filter_body mk ft s e en acc = Inr acc
        \<and> filter_articles_by_date_range mk ft (xs @ en # ys) s e
            = filter_articles_by_date_range mk ft (xs @ ys) s e)"
proof (intro conjI impI)
  assume "published_parsed en = Some (Some t)"
  then show "date_struct_of en = Some t" by (simp add: date_struct_of_def)
next
  assume "published_parsed en = None \<or> published_parsed en = Some None"
    and "updated_parsed en = Some (Some u)"
  then show "date_struct_of en = Some u" by (auto simp: date_struct_of_def)
next
  assume "published_parsed en = None \<or> published_parsed en = Some None"
    and "updated_parsed en = None \<or> updated_parsed en = Some None"
  then show n: "date_struct_of en = None" by (auto simp: date_struct_of_def)
  then show "filter_body mk ft s e en acc = Inr acc" by (simp add: filter_body_def)
  from n show "filter_articles_by_date_range mk ft (xs @ en # ys) s e
      = filter_articles_by_date_range mk ft (xs @ ys) s e"
    by (rule filter_no_date)
qed

theorem date_struct_primary_then_fallback_witness:
  "published_parsed entry_published = Some (Some ts_may10)
   \<and> date_struct_of entry_published = Some ts_may10
   \<and> published_parsed entry_updated_only = None
   \<and> updated_parsed entry_updated_only = Some (Some ts_may10)
   \<and> date_struct_of entry_updated_only = Some ts_may10
   \<and> published_parsed entry_unparsed_published = Some None
   \<and> updated_parsed entry_unparsed_published = Some (Some ts_may15)
   \<and> date_struct_of entry_unparsed_published = Some ts_may15
   \<and> published_parsed entry_no_date = None
   \<and> updated_parsed entry_no_date = Some None
   \<and> date_struct_of entry_no_date = None
   \<and> filter_body utc_mktime utc_fromtimestamp window_start window_end entry_no_date []
       = Inr []
   \<and> filter_articles_by_date_range utc_mktime utc_fromtimestamp
        ([entry_published] @ entry_no_date # [entry_updated_only]) window_start window_end
       = filter_articles_by_date_range utc_mktime utc_fromtimestamp
        ([entry_published] @ [entry_updated_only]) window_start window_end
   \<and> filter_articles_by_date_range utc_mktime utc_fromtimestamp [entry_updated_only]
        window_start window_end
       = Inr [make_article entry_updated_only dt_may10]"
proof -
  have p1: "published_parsed entry_published = Some (Some ts_may10)"
    by (simp add: entry_published_def)
  have p2: "published_parsed entry_updated_only = None"
    and u2: "updated_parsed entry_updated_only = Some (Some ts_may10)"
    by (simp_all add: entry_updated_only_def)
  have p3: "published_parsed entry_unparsed_published = Some None"
    and u3: "updated_parsed entry_unparsed_published = Some (Some ts_may15)"
    by (simp_all add: entry_unparsed_published_def)
  have p4: "published_parsed entry_no_date = None"
    and u4: "updated_parsed entry_no_date = Some None"
    by (simp_all add: entry_no_date_def)
  have sc2: "filter_articles_by_date_range utc_mktime utc_fromtimestamp [entry_updated_only]
        window_start window_end = Inr [make_article entry_updated_only dt_may10]"
    by code_simp
  from date_struct_primary_then_fallback [of entry_published ts_may10] p1
  have a: "date_struct_of entry_published = Some ts_may10" by blast
  from date_struct_primary_then_fallback [of entry_updated_only _ ts_may10] p2 u2
  have b: "date_struct_of entry_updated_only = Some ts_may10" by blast
  from date_struct_primary_then_fallback [of entry_unparsed_published _ ts_may15] p3 u3
  have c: "date_struct_of entry_unparsed_published = Some ts_may15" by blast
  from date_struct_primary_then_fallback [of entry_no_date _ _ utc_mktime utc_fromtimestamp
      window_start window_end "[]" "[entry_published]" "[entry_updated_only]"] p4 u4
  have d: "date_struct_of entry_no_date = None"
    "filter_body utc_mktime utc_fromtimestamp window_start window_end entry_no_date []
       = Inr []"
    "filter_articles_by_date_range utc_mktime utc_fromtimestamp
        ([entry_published] @ entry_no_date # [entry_updated_only]) window_start window_end
       = filter_articles_by_date_range utc_mktime utc_fromtimestamp
        ([entry_published] @ [entry_updated_only]) window_start window_end"
    by blast+
  from p1 a p2 u2 b p3 u3 c p4 u4 d sc2 show ?thesis by (intro conjI) assumption+
qed

text \<open>
  C4. In a run that returns, an entry whose date lies in the window contributes one
  article whose \<open>title\<close> is the entry's title or \<open>No title\<close> when the entry has none,
  whose \<open>url\<close> is the entry's link or \<open>No link\<close>, and whose \<open>source\<close> is the entry's
  source or \<open>Unknown source\<close>.
\<close>

theorem sentinels_for_missing_text:
  assumes "filter_articles_by_date_range mk ft (xs @ en # ys) s e = Inr out"
    and "date_struct_of en = Some t"
    and "published_datetime_of mk ft t = Inr dt"
    and "date_le s (date_of dt)" and "date_le (date_of dt) e"
  shows "\<exists>o1 o2 r. out = o1 @ r # o2
           \<and> filter_articles_by_date_range mk ft xs s e = Inr o1
           \<and> filter_articles_by_date_range mk ft ys s e = Inr o2
           \<and> getitem r ''title''
               = Inr (PyStr (case title en of None \<Rightarrow> ''No title'' | Some x \<Rightarrow> x))
           \<and> getitem r ''url''
               = Inr (PyStr (case link en of None \<Rightarrow> ''No link'' | Some x \<Rightarrow> x))
           \<and> getitem r ''source''
               = Inr (case source en of None \<Rightarrow> PyStr ''Unknown source'' | Some v \<Rightarrow> v)"
proof -
  from filter_entry [OF assms(1-3)] assms(4,5) obtain o1 o2 where
    "filter_articles_by_date_range mk ft xs s e = Inr o1"
    "filter_articles_by_date_range mk ft ys s e = Inr o2"
    "out = o1 @ make_article en dt # o2"
    by auto
  moreover have "getitem (make_article en dt) ''title''
      = Inr (PyStr (case title en of None \<Rightarrow> ''No title'' | Some x \<Rightarrow> x))"
    by (simp add: getitem_def make_article_def)
  moreover have "getitem (make_article en dt) ''url''
      = Inr (PyStr (case link en of None \<Rightarrow> ''No link'' | Some x \<Rightarrow> x))"
    by (simp add: getitem_def make_article_def)
  moreover have "getitem (make_article en dt) ''source''
      = Inr (case source en of None \<Rightarrow> PyStr ''Unknown source'' | Some v \<Rightarrow> v)"
    by (simp add: getitem_def make_article_def)
  ultimately show ?thesis by blast
qed

theorem sentinels_for_missing_text_witness:
  "\<exists>o1 o2 r.
     [make_article entry_updated_only dt_may10, make_article entry_published dt_may10]
       = o1 @ r # o2
     \<and> filter_articles_by_date_range utc_mktime utc_fromtimestamp [entry_april30]
         window_start window_end = Inr o1
     \<and> filter_articles_by_date_range utc_mktime utc_fromtimestamp [entry_published]
         window_start window_end = Inr o2
     \<and> getitem r ''title'' = Inr (PyStr ''No title'')
     \<and> getitem r ''url'' = Inr (PyStr ''No link'')
     \<and> getitem r ''source'' = Inr (PyStr ''Unknown source'')"
proof -
  have run: "filter_articles_by_date_range utc_mktime utc_fromtimestamp
      ([entry_april30] @ entry_updated_only # [entry_published]) window_start window_end
      = Inr [make_article entry_updated_only dt_may10, make_article entry_published dt_may10]"
    using example_run_sentinels by simp
  have f: "title entry_updated_only = None" "link entry_updated_only = None"
    "source entry_updated_only = None"
    by (simp_all add: entry_updated_only_def)
  from sentinels_for_missing_text
    [OF run example_date_structs(2) may10_converts may10_in_window]
  show ?thesis by (simp only: f option.case)
qed

text \<open>
  C8. The output of a run that returns is the list of the articles of a subsequence of
  the input: the surviving entries, in the order of the input, each mapped to its
  article.
\<close>

theorem filter_preserves_order:
  assumes "filter_articles_by_date_range mk ft articles s e = Inr out"
  shows "\<exists>kept. subseq kept articles \<and> list_all2 (produced mk ft s e) kept out"
  using assms by (rule filter_kept)

theorem filter_preserves_order_witness:
  "filter_articles_by_date_range utc_mktime utc_fromtimestamp
     [entry_april30, entry_published, entry_no_date, entry_unparsed_published]
     window_start window_end
   = Inr [make_article entry_published dt_may10,
          make_article entry_unparsed_published dt_may15]
   \<and> (\<exists>kept.
         subseq kept [entry_april30, entry_published, entry_no_date, entry_unparsed_published]
       \<and> list_all2 (produced utc_mktime utc_fromtimestamp window_start window_end) kept
           [make_article entry_published dt_may10,
            make_article entry_unparsed_published dt_may15])"
  using filter_preserves_order [OF example_run] example_run by (intro conjI) assumption+

text \<open>
  C10. Every article of a run that returns has exactly the keys \<open>title\<close>, \<open>url\<close>,
  \<open>published_datetime\<close>, \<open>source\<close>, \<open>summary\<close>, \<open>content\<close> and \<open>keywords\<close>, and comes
  from an entry of the input: its \<open>summary\<close> is the entry's summary or \<open>No summary\<close>,
  its \<open>content\<close> the entry's content or the empty list, its \<open>keywords\<close> the entry's
  \<open>tags\<close> value as it is, or the empty list.
\<close>

theorem article_keys_and_defaults:
  assumes "filter_articles_by_date_range mk ft articles s e = Inr out"
  shows "\<forall>r\<in>set out.
           map fst r = [''title'', ''url'', ''published_datetime'', ''source'', ''summary'',
                        ''content'', ''keywords'']
         \<and> (\<exists>en\<in>set articles.
               getitem r ''summary''
                 = Inr (PyStr (case summary en of None \<Rightarrow> ''No summary'' | Some x \<Rightarrow> x))
             \<and> getitem r ''content''
                 = Inr (case content en of None \<Rightarrow> PyList [] | Some v \<Rightarrow> v)
             \<and> getitem r ''keywords''
                 = Inr (case tags en of None \<Rightarrow> PyList [] | Some v \<Rightarrow> v))"
proof
  fix r assume "r \<in> set out"
  from filter_out_from_entry [OF assms this] obtain en dt where
    en: "en \<in> set articles" and r: "r = make_article en dt"
    by (auto simp: produced_def)
  have "map fst r = [''title'', ''url'', ''published_datetime'', ''source'', ''summary'',
                     ''content'', ''keywords'']"
    by (simp add: r make_article_def)
  moreover have "getitem r ''summary''
      = Inr (PyStr (case summary en of None \<Rightarrow> ''No summary'' | Some x \<Rightarrow> x))"
    by (simp add: r getitem_def make_article_def)
  moreover have "getitem r ''content''
      = Inr (case content en of None \<Rightarrow> PyList [] | Some v \<Rightarrow> v)"
    by (simp add: r getitem_def make_article_def)
  moreover have "getitem r ''keywords''
      = Inr (case tags en of None \<Rightarrow> PyList [] | Some v \<Rightarrow> v)"
    by (simp add: r getitem_def make_article_def)
  ultimately show "map fst r = [''title'', ''url'', ''published_datetime'', ''source'',
        ''summary'', ''content'', ''keywords'']
      \<and> (\<exists>en\<in>set articles.
            getitem r ''summary''
              = Inr (PyStr (case summary en of None \<Rightarrow> ''No summary'' | Some x \<Rightarrow> x))
          \<and> getitem r ''content''
              = Inr (case content en of None \<Rightarrow> PyList [] | Some v \<Rightarrow> v)
          \<and> getitem r ''keywords''
              = Inr (case tags en of None \<Rightarrow> PyList [] | Some v \<Rightarrow> v))"
    using en by blast
qed

theorem article_keys_and_defaults_witness:
  "filter_articles_by_date_range utc_mktime utc_fromtimestamp
     [entry_april30, entry_updated_only, entry_published] window_start window_end
   = Inr [make_article entry_updated_only dt_may10, make_article entry_published dt_may10]
   \<and> map fst (make_article entry_published dt_may10)
       = [''title'', ''url'', ''published_datetime'', ''source'', ''summary'', ''content'',
          ''keywords'']
   \<and> (\<exists>en\<in>set [entry_april30, entry_updated_only, entry_published].
         getitem (make_article entry_published dt_may10) ''summary''
           = Inr (PyStr (case summary en of None \<Rightarrow> ''No summary'' | Some x \<Rightarrow> x))
       \<and> getitem (make_article entry_published dt_may10) ''content''
           = Inr (case content en of None \<Rightarrow> PyList [] | Some v \<Rightarrow> v)
       \<and> getitem (make_article entry_published dt_may10) ''keywords''
           = Inr (case tags en of None \<Rightarrow> PyList [] | Some v \<Rightarrow> v))
   \<and> getitem (make_article entry_published dt_may10) ''summary'' = Inr (PyStr ''No summary'')
   \<and> getitem (make_article entry_published dt_may10) ''content'' = Inr (PyList [])
   \<and> getitem (make_article entry_updated_only dt_may10) ''keywords''
       = Inr (PyList [PyDict [(''term'', PyStr ''physics'')]])"
proof -
  have m: "make_article entry_published dt_may10
      \<in> set [make_article entry_updated_only dt_may10, make_article entry_published dt_may10]"
    by simp
  have v: "getitem (make_article entry_published dt_may10) ''summary''
        = Inr (PyStr ''No summary'')"
    "getitem (make_article entry_published dt_may10) ''content'' = Inr (PyList [])"
    "getitem (make_article entry_updated_only dt_may10) ''keywords''
       = Inr (PyList [PyDict [(''term'', PyStr ''physics'')]])"
    by (simp_all add: getitem_def make_article_def entry_published_def entry_updated_only_def)
  from bspec [OF article_keys_and_defaults [OF example_run_sentinels] m]
    example_run_sentinels v
  show ?thesis by (intro conjI) (erule conjunct1 conjunct2 | assumption)+
qed

section \<open>Properties of the feed adapter\<close>

lemma get_articles_returns:
  "\<exists>out es. get_articles_from_rss parse feed_url = (out, Inr es)"
  by (cases "fetch_try parse feed_url") (auto simp: get_articles_from_rss_def split: sum.splits)

text \<open>
  C5. \<open>get_articles_from_rss\<close> always returns a list and never raises. When the parser
  reports a structural error (\<open>bozo\<close> set, with its exception) the function prints one
  warning and returns the entries the parser recovered; when the parser raises, it
  prints the error and returns the empty list.
\<close>

theorem get_articles_never_raises:
  "(\<exists>es. snd (get_articles_from_rss parse feed_url) = Inr es)
   \<and> (parse feed_url = Inr pf \<longrightarrow> bozo pf \<longrightarrow> bozo_exception pf = Some msg \<longrightarrow>
        get_articles_from_rss parse feed_url
          = ([WarnNotWellFormed feed_url msg], Inr (entries pf)))
   \<and> (parse feed_url = Inr pf \<longrightarrow> \<not> bozo pf \<longrightarrow>
        get_articles_from_rss parse feed_url = ([], Inr (entries pf)))
   \<and> (parse feed_url = Inl err \<longrightarrow>
        get_articles_from_rss parse feed_url = ([ErrorFetching feed_url err], Inr []))"
proof (intro conjI impI)
  from get_articles_returns [of parse feed_url]
  show "\<exists>es. snd (get_articles_from_rss parse feed_url) = Inr es" by auto
next
  assume "parse feed_url = Inr pf" "bozo pf" "bozo_exception pf = Some msg"
  then show "get_articles_from_rss parse feed_url
      = ([WarnNotWellFormed feed_url msg], Inr (entries pf))"
    by (simp add: get_articles_from_rss_def fetch_try_def)
next
  assume "parse feed_url = Inr pf" "\<not> bozo pf"
  then show "get_articles_from_rss parse feed_url = ([], Inr (entries pf))"
    by (simp add: get_articles_from_rss_def fetch_try_def)
next
  assume "parse feed_url = Inl err"
  then show "get_articles_from_rss parse feed_url = ([ErrorFetching feed_url err], Inr [])"
    by (simp add: get_articles_from_rss_def fetch_try_def)
qed

theorem get_articles_never_raises_witness:
  "get_articles_from_rss feed_bozo ''http://example.org/feed''
     = ([WarnNotWellFormed ''http://example.org/feed'' ''mismatched tag''],
        Inr [entry_published])
   \<and> get_articles_from_rss feed_ok ''http://example.org/feed'' = ([], Inr [entry_published])
   \<and> get_articles_from_rss feed_down ''http://example.org/feed''
     = ([ErrorFetching ''http://example.org/feed'' OSError], Inr [])"
proof -
  let ?u = "''http://example.org/feed''"
  let ?b = "\<lparr>bozo = True, bozo_exception = Some ''mismatched tag'',
             entries = [entry_published]\<rparr>"
  let ?k = "\<lparr>bozo = False, bozo_exception = None, entries = [entry_published]\<rparr>"
  have b: "feed_bozo ?u = Inr ?b" "bozo ?b" "bozo_exception ?b = Some ''mismatched tag''"
    by (simp_all add: feed_bozo_def)
  have k: "feed_ok ?u = Inr ?k" "\<not> bozo ?k"
    by (simp_all add: feed_ok_def)
  have d: "feed_down ?u = Inl OSError"
    by (simp add: feed_down_def)
  from get_articles_never_raises [of feed_bozo ?u ?b "''mismatched tag''"] b
  have 1: "get_articles_from_rss feed_bozo ?u
      = ([WarnNotWellFormed ?u ''mismatched tag''], Inr (entries ?b))"
    by blast
  from get_articles_never_raises [of feed_ok ?u ?k] k
  have 2: "get_articles_from_rss feed_ok ?u = ([], Inr (entries ?k))"
    by blast
  from get_articles_never_raises [of feed_down ?u _ _ OSError] d
  have 3: "get_articles_from_rss feed_down ?u = ([ErrorFetching ?u OSError], Inr [])"
    by blast
  from 1 2 3 show ?thesis by simp
qed

section \<open>Properties of the main script\<close>

lemma call_with_four_arguments:
  "call_filter_articles_by_date_range mk ft [ArgEntries es, ArgDate a, ArgDate b, ArgStr n]
     = Inl TypeError"
  by (simp add: call_filter_articles_by_date_range_def)

lemma feeds_loop_raises:
  assumes "\<exists>(n, u)\<in>set feeds. \<exists>es. snd (get_articles_from_rss parse u) = Inr es \<and> es \<noteq> []"
  shows "snd (feeds_loop parse mk ft a b feeds acc) = Inl TypeError"
  using assms
proof (induction feeds arbitrary: acc)
  case Nil
  then show ?case by simp
next
  case (Cons f feeds)
  obtain n u where f: "f = (n, u)" by (cases f)
  from get_articles_returns [of parse u] obtain out es where
    g: "get_articles_from_rss parse u = (out, Inr es)" by blast
  show ?case
  proof (cases "es = []")
    case False
    then show ?thesis by (simp add: f g call_with_four_arguments)
  next
    case True
    with Cons.prems f g
    have "\<exists>(n, u)\<in>set feeds. \<exists>es. snd (get_articles_from_rss parse u) = Inr es \<and> es \<noteq> []"
      by auto
    from Cons.IH [OF this, of acc] True show ?thesis
      by (auto simp: f g split: prod.splits)
  qed
qed

text \<open>
  C9. The main script calls \<open>filter_articles_by_date_range\<close> with four positional
  arguments (the entries, the two dates and the source name); the function takes three,
  so the call raises \<open>TypeError\<close>. Whenever one of the feeds returns a non-empty list of
  entries, the run ends with that \<open>TypeError\<close> (the date seven days before \<open>today\<close>
  being a date, which line 209 needs to get that far).
\<close>

theorem main_raises_TypeError:
  assumes "date_minus_days today 7 = Inr one_day_ago"
    and "\<exists>(n, u)\<in>set target_feeds.
           \<exists>es. snd (get_articles_from_rss parse u) = Inr es \<and> es \<noteq> []"
  shows "snd (main parse mk ft today) = Some TypeError
         \<and> call_filter_articles_by_date_range mk ft
             [ArgEntries es, ArgDate one_day_ago, ArgDate today, ArgStr source_name]
            = Inl TypeError"
proof
  from feeds_loop_raises [OF assms(2), of mk ft one_day_ago today "[]"]
  show "snd (main parse mk ft today) = Some TypeError"
    by (auto simp: main_def assms(1) split: prod.splits)
  show "call_filter_articles_by_date_range mk ft
      [ArgEntries es, ArgDate one_day_ago, ArgDate today, ArgStr source_name] = Inl TypeError"
    by (rule call_with_four_arguments)
qed

lemma example_one_day_ago:
  "date_minus_days window_end 7 = Inr \<lparr>year = 2024, month = 5, day = 8\<rparr>"
  by code_simp

theorem main_raises_TypeError_witness:
  "date_minus_days window_end 7 = Inr \<lparr>year = 2024, month = 5, day = 8\<rparr>
   \<and> snd (get_articles_from_rss feed_ok ''http://feeds.nature.com/nature/rss/current'')
       = Inr [entry_published]
   \<and> snd (main feed_ok utc_mktime utc_fromtimestamp window_end) = Some TypeError
   \<and> call_filter_articles_by_date_range utc_mktime utc_fromtimestamp
        [ArgEntries [entry_published], ArgDate \<lparr>year = 2024, month = 5, day = 8\<rparr>,
         ArgDate window_end, ArgStr ''Nature''] = Inl TypeError"
proof -
  have g: "snd (get_articles_from_rss feed_ok ''http://feeds.nature.com/nature/rss/current'')
      = Inr [entry_published]"
    by (simp add: get_articles_from_rss_def fetch_try_def feed_ok_def)
  then have h: "\<exists>(n, u)\<in>set target_feeds.
      \<exists>es. snd (get_articles_from_rss feed_ok u) = Inr es \<and> es \<noteq> []"
    by (simp add: target_feeds_def)
  from main_raises_TypeError [OF example_one_day_ago h, of utc_mktime utc_fromtimestamp
      "[entry_published]" "''Nature''"] example_one_day_ago g
  show ?thesis by (intro conjI) (erule conjunct1 conjunct2 | assumption)+
qed

section \<open>Properties of the summarization client\<close>

text \<open>
  C1. When \<^verbatim>\<open>GOOGLE_API_KEY\<close> is not set (or is empty), loading the module prints the
  warning that summarization will be skipped and leaves the name \<open>client\<close> unbound;
  \<open>summarize_article\<close> and \<open>analyze_article_collection\<close> then raise \<open>NameError\<close>.
\<close>

theorem summarization_without_key_raises:
  "init_client genai_Client None = ([WarnNoApiKey], None)
   \<and> init_client genai_Client (Some []) = ([WarnNoApiKey], None)
   \<and> summarize_article generate_content (snd (init_client genai_Client None)) article_entry
       = Inl NameError
   \<and> analyze_article_collection generate_content (snd (init_client genai_Client None))
        articles_summaries = Inl NameError"
  by (simp add: init_client_def summarize_article_def analyze_article_collection_def)

lemma format_prompt2:
  "str_format prompt2 [x] = Inr (
     ''You are a helpful assistant that summarizes scientific articles. '' @
     ''Here are many summaries of a collection of articles.'' @
     x @
     ''In a few sentences and concise language, describe the major themes of these articles.'' @
     ''Provide links to a few important articles in [[number]](url)] style.'' @
     ''The links should be integrated into the text, not listed separately.'')"
  by (simp add: str_format_def prompt2_def)

lemma str_join_Cons:
  "str_join sep (x # xs) = x @ concat (map (\<lambda>y. sep @ y) xs)"
  by (induction xs arbitrary: x) simp_all

text \<open>
  C7. With a client, \<open>analyze_article_collection\<close> joins the summaries with three line
  feeds and sends the backend the fixed text of \<open>prompt2\<close> with the joined text in the
  place of its single \<^verbatim>\<open>{}\<close>: the joined text occurs once, between the two fixed parts,
  and is not scanned for fields. The fixed text after it asks for links in
  \<^verbatim>\<open>[[number]](url)]\<close> style, integrated into the text and not listed separately.
  The joined text is empty for no summaries and otherwise the first summary followed by
  every further summary in order, each preceded by the separator; so for any number of
  summaries every one of them occurs, in input order, with exactly the three line feeds
  between neighbours.
\<close>

theorem digest_prompt_interpolates_once:
  "analyze_article_collection generate_content (Some c) articles_summaries
     = generate_content c model_name (
         ''You are a helpful assistant that summarizes scientific articles. '' @
         ''Here are many summaries of a collection of articles.'' @
         str_join [CHR 0x0A, CHR 0x0A, CHR 0x0A] articles_summaries @
         ''In a few sentences and concise language, describe the major themes of these articles.'' @
         ''Provide links to a few important articles in [[number]](url)] style.'' @
         ''The links should be integrated into the text, not listed separately.'')
   \<and> str_join [CHR 0x0A, CHR 0x0A, CHR 0x0A] [a, b, d]
       = a @ [CHR 0x0A, CHR 0x0A, CHR 0x0A] @ b @ [CHR 0x0A, CHR 0x0A, CHR 0x0A] @ d
   \<and> analyze_article_collection generate_content (Some c) articles_summaries
     = generate_content c model_name (
         ''You are a helpful assistant that summarizes scientific articles. '' @
         ''Here are many summaries of a collection of articles.'' @
         (case articles_summaries of
            [] \<Rightarrow> []
          | x # xs \<Rightarrow> x @ concat (map (\<lambda>y. [CHR 0x0A, CHR 0x0A, CHR 0x0A] @ y) xs)) @
         ''In a few sentences and concise language, describe the major themes of these articles.'' @
         ''Provide links to a few important articles in [[number]](url)] style.'' @
         ''The links should be integrated into the text, not listed separately.'')
   \<and> str_join sep [] = []
   \<and> str_join sep [x] = x
   \<and> str_join sep (x # xs) = x @ concat (map (\<lambda>y. sep @ y) xs)"
proof -
  have j: "str_join [CHR 0x0A, CHR 0x0A, CHR 0x0A] articles_summaries
      = (case articles_summaries of
           [] \<Rightarrow> []
         | x # xs \<Rightarrow> x @ concat (map (\<lambda>y. [CHR 0x0A, CHR 0x0A, CHR 0x0A] @ y) xs))"
    by (cases articles_summaries) (simp_all only: str_join.simps(1) str_join_Cons list.case)
  have p: "analyze_article_collection generate_content (Some c) articles_summaries
     = generate_content c model_name (
         ''You are a helpful assistant that summarizes scientific articles. '' @
         ''Here are many summaries of a collection of articles.'' @
         str_join [CHR 0x0A, CHR 0x0A, CHR 0x0A] articles_summaries @
         ''In a few sentences and concise language, describe the major themes of these articles.'' @
         ''Provide links to a few important articles in [[number]](url)] style.'' @
         ''The links should be integrated into the text, not listed separately.'')"
    by (simp add: analyze_article_collection_def format_prompt2)
  have t: "str_join [CHR 0x0A, CHR 0x0A, CHR 0x0A] [a, b, d]
       = a @ [CHR 0x0A, CHR 0x0A, CHR 0x0A] @ b @ [CHR 0x0A, CHR 0x0A, CHR 0x0A] @ d"
    by simp
  have e: "str_join sep [] = []" "str_join sep [x] = x" by simp_all
  note g = str_join_Cons [of sep x xs]
  from p t p [unfolded j] e g show ?thesis by (intro conjI) assumption+
qed

section \<open>Properties of the sort\<close>

lemma datetime_key_inj: "datetime_key a = datetime_key b \<Longrightarrow> a = b"
  by (cases a, cases b) (simp add: datetime_key_def)

lemma keys_of_Inr:
  "keys_of xs = Inr ks \<Longrightarrow>
     ks = map (\<lambda>x. projr (published_key x)) xs \<and> (\<forall>x\<in>set xs. \<exists>d. published_key x = Inr d)"
proof (induction xs arbitrary: ks)
  case Nil
  then show ?case by simp
next
  case (Cons x xs)
  from Cons.prems obtain k ks' where
    k: "published_key x = Inr k" and ks': "keys_of xs = Inr ks'" and ks: "ks = k # ks'"
    by (cases "published_key x"; cases "keys_of xs") auto
  from Cons.IH [OF ks'] k ks show ?case by simp
qed

lemma keys_of_total:
  "\<forall>x\<in>set xs. \<exists>d. published_key x = Inr d \<Longrightarrow> \<exists>ks. keys_of xs = Inr ks"
  by (induction xs) auto

lemma insort_key_map:
  "insort_key k (h x) (map h ys) = map h (insort_key (\<lambda>y. k (h y)) x ys)"
  by (induction ys) simp_all

lemma sort_key_map:
  "sort_key k (map h xs) = map h (sort_key (\<lambda>y. k (h y)) xs)"
  by (induction xs) (simp_all add: insort_key_map)

lemma py_sort_reverse_decorated:
  "map snd (py_sort_reverse (\<lambda>p. f (fst p)) (zip (map g xs) xs))
     = py_sort_reverse (\<lambda>x. f (g x)) xs"
proof -
  have z: "zip (map g xs) xs = map (\<lambda>x. (g x, x)) xs"
    by (induction xs) simp_all
  show ?thesis
    by (simp add: py_sort_reverse_def z rev_map sort_key_map o_def)
qed

lemma sort_articles_eq:
  assumes "keys_of xs = Inr ks"
  shows "sort_articles xs
     = Inr (py_sort_reverse (\<lambda>x. datetime_key (projr (published_key x))) xs)"
proof -
  from keys_of_Inr [OF assms] have "ks = map (\<lambda>x. projr (published_key x)) xs" by simp
  with assms show ?thesis
    by (simp add: sort_articles_def py_sort_reverse_decorated)
qed

lemma py_sort_reverse_mset: "mset (py_sort_reverse k xs) = mset xs"
  by (simp add: py_sort_reverse_def)

lemma py_sort_reverse_sorted:
  "sorted_wrt (\<lambda>a b. k b \<le> k a) (py_sort_reverse k xs)"
proof -
  have "sorted (map k (sort_key k (rev xs)))" by (rule sorted_sort_key)
  then have "sorted_wrt (\<lambda>a b. k a \<le> k b) (sort_key k (rev xs))"
    by (simp add: sorted_map)
  then show ?thesis
    by (simp add: py_sort_reverse_def sorted_wrt_rev)
qed

lemma py_sort_reverse_stable:
  "filter (\<lambda>x. k x = v) (py_sort_reverse k xs) = filter (\<lambda>x. k x = v) xs"
proof -
  have "filter (\<lambda>x. k x = v) (py_sort_reverse k xs)
      = rev (filter (\<lambda>x. k x = v) (sort_key k (rev xs)))"
    by (simp add: py_sort_reverse_def rev_filter)
  also have "\<dots> = rev (filter (\<lambda>x. k x = v) (rev xs))"
    by (simp only: sort_key_stable)
  also have "\<dots> = filter (\<lambda>x. k x = v) xs"
    by (simp add: rev_filter)
  finally show ?thesis .
qed

lemma filter_output_has_datetime:
  assumes "filter_articles_by_date_range mk ft articles s e = Inr out"
  shows "\<forall>r\<in>set out. \<exists>dt. published_key r = Inr dt"
proof
  fix r assume "r \<in> set out"
  from filter_out_from_entry [OF assms this] obtain en dt where "r = make_article en dt"
    by (auto simp: produced_def)
  then show "\<exists>dt. published_key r = Inr dt"
    by (simp add: published_key_def getitem_def make_article_def)
qed

lemma example_sort:
  "sort_articles
     [make_article entry_published dt_may10,
      make_article entry_unparsed_published dt_may15,
      make_article entry_updated_only dt_may10]
   = Inr [make_article entry_unparsed_published dt_may15,
          make_article entry_published dt_may10,
          make_article entry_updated_only dt_may10]"
  by code_simp

text \<open>
  C6. Line 236 sorts the collected articles, each holding a datetime under
  \<open>published_datetime\<close> (as every article of the filter does, by
  \<open>filter_output_has_datetime\<close>): the sort returns, its result is a rearrangement of
  the list in which every article is at least as recent as all the articles after it,
  and articles with the same datetime stay in their input order.
\<close>

theorem sort_newest_first_stable:
  assumes "\<forall>x\<in>set xs. \<exists>dt. published_key x = Inr dt"
  shows "\<exists>ys. sort_articles xs = Inr ys
           \<and> mset ys = mset xs
           \<and> sorted_wrt published_ge ys
           \<and> (\<forall>dt. filter (\<lambda>x. published_key x = Inr dt) ys
                   = filter (\<lambda>x. published_key x = Inr dt) xs)"
proof -
  let ?k = "\<lambda>x. datetime_key (projr (published_key x))"
  let ?ys = "py_sort_reverse ?k xs"
  from keys_of_total [OF assms] obtain ks where "keys_of xs = Inr ks" by blast
  then have eq: "sort_articles xs = Inr ?ys" by (rule sort_articles_eq)
  have m: "mset ?ys = mset xs" by (rule py_sort_reverse_mset)
  then have set: "set ?ys = set xs" by (rule mset_eq_setD)
  have "sorted_wrt (\<lambda>a b. ?k b \<le> ?k a) ?ys" by (rule py_sort_reverse_sorted)
  then have s: "sorted_wrt published_ge ?ys"
  proof (rule sorted_wrt_mono_rel [rotated])
    fix a b assume "a \<in> set ?ys" "b \<in> set ?ys" "?k b \<le> ?k a"
    moreover from this set assms obtain da db where
      "published_key a = Inr da" "published_key b = Inr db"
      by blast
    ultimately show "published_ge a b"
      by (simp add: published_ge_def)
  qed
  have st: "filter (\<lambda>x. published_key x = Inr dt) ?ys
      = filter (\<lambda>x. published_key x = Inr dt) xs" for dt
  proof -
    have c: "(published_key x = Inr dt) = (?k x = datetime_key dt)" if "x \<in> set xs" for x
    proof -
      from that assms obtain d where d: "published_key x = Inr d" by blast
      show ?thesis by (auto simp: d dest: datetime_key_inj)
    qed
    have "filter (\<lambda>x. published_key x = Inr dt) ?ys
        = filter (\<lambda>x. ?k x = datetime_key dt) ?ys"
      by (rule filter_cong) (simp_all add: set c)
    also have "\<dots> = filter (\<lambda>x. ?k x = datetime_key dt) xs"
      by (rule py_sort_reverse_stable)
    also have "\<dots> = filter (\<lambda>x. published_key x = Inr dt) xs"
      by (rule filter_cong) (simp_all add: c)
    finally show ?thesis .
  qed
  from eq m s st show ?thesis by blast
qed

theorem sort_newest_first_stable_witness:
  "sort_articles
     [make_article entry_published dt_may10,
      make_article entry_unparsed_published dt_may15,
      make_article entry_updated_only dt_may10]
   = Inr [make_article entry_unparsed_published dt_may15,
          make_article entry_published dt_may10,
          make_article entry_updated_only dt_may10]
   \<and> (\<exists>ys. sort_articles
         [make_article entry_published dt_may10,
          make_article entry_unparsed_published dt_may15,
          make_article entry_updated_only dt_may10] = Inr ys
       \<and> mset ys = mset [make_article entry_published dt_may10,
            make_article entry_unparsed_published dt_may15,
            make_article entry_updated_only dt_may10]
       \<and> sorted_wrt published_ge ys
       \<and> (\<forall>dt. filter (\<lambda>x. published_key x = Inr dt) ys
               = filter (\<lambda>x. published_key x = Inr dt)
                   [make_article entry_published dt_may10,
                    make_article entry_unparsed_published dt_may15,
                    make_article entry_updated_only dt_may10]))"
proof -
  have h: "\<forall>x\<in>set [make_article entry_published dt_may10,
      make_article entry_unparsed_published dt_may15,
      make_article entry_updated_only dt_may10]. \<exists>dt. published_key x = Inr dt"
    by (simp add: published_key_def getitem_def make_article_def)
  from sort_newest_first_stable [OF h] example_sort
  show ?thesis by (intro conjI) assumption+
qed

end
